theory Spec2Isabelle
  imports Complex_Main "HOL-Library.Sublist" "HOL-Library.Log_Nat"
begin

section \<open>Candidate screening: the scoring and recommendation engine\<close>

text \<open>
  A shallow embedding of the scoring functions of \<^verbatim>\<open>candidate_screener.py\<close>:
  \<^verbatim>\<open>calculate_skill_match_score\<close>, \<^verbatim>\<open>calculate_experience_score\<close>,
  \<^verbatim>\<open>calculate_education_score\<close>, \<^verbatim>\<open>score_candidate\<close> and
  \<^verbatim>\<open>generate_recommendation\<close>.

  Conventions of the embedding:
  \<^item> a Python \<^verbatim>\<open>str\<close> is a \<open>string\<close> whose characters are the code points
    0 to 255 (Latin-1 text), on which \<^verbatim>\<open>str.lower\<close> acts character by character;
  \<^item> a Python \<^verbatim>\<open>int\<close> is an \<open>int\<close>, printed in full (the interpreter's configurable
    limit on the digits of an integer conversion is outside the model);
  \<^item> a Python \<^verbatim>\<open>float\<close> is the rational number that a finite binary64 value denotes,
    and every floating-point operation rounds its exact result to the nearest binary64
    value, a tie going to the even significand (\<open>fl\<close> below). Infinities, NaN and the
    sign of zero are not represented: the model follows the code as long as no operation
    overflows;
  \<^item> a raised exception is the left summand of a sum type.
\<close>

subsection \<open>Python primitives used by the scorers\<close>

datatype py_error = IndexError | ZeroDivisionError

text \<open>\<^verbatim>\<open>xs[0]\<close>: raises on the empty list.\<close>

definition py_index0 :: "'a list \<Rightarrow> py_error + 'a" where
  "py_index0 xs = (case xs of [] \<Rightarrow> Inl IndexError | x # _ \<Rightarrow> Inr x)"

text \<open>Rounding to the nearest integer, a tie going to the even one.\<close>

definition round_half_even :: "rat \<Rightarrow> int" where
  "round_half_even x =
     (let f = \<lfloor>x\<rfloor>; d = x - of_int f
      in if d < 1 / 2 then f
         else if 1 / 2 < d then f + 1
         else if even f then f else f + 1)"

text \<open>
  Binary64 rounding. \<open>binade x\<close> is the exponent \<open>e\<close> with \<open>2^e \<le> \<bar>x\<bar> < 2^(e+1)\<close>, found
  from the bit lengths of numerator and denominator. A binary64 value in that binade is
  a multiple of \<open>2^(e - 52)\<close> (53 significant bits); below the smallest normal exponent
  \<open>-1022\<close> the spacing stays \<open>2^(-1074)\<close> (subnormal values). \<open>fl x\<close> is the multiple
  nearest to \<open>x\<close>.
\<close>

definition binade :: "rat \<Rightarrow> int" where
  "binade x =
     (case quotient_of \<bar>x\<bar> of
        (n, d) \<Rightarrow> (let k = bitlen n - bitlen d
                   in if power_int 2 k \<le> \<bar>x\<bar> then k else k - 1))"

definition fl :: "rat \<Rightarrow> rat" where
  "fl x =
     (if x = 0 then 0
      else (let q = power_int 2 (max (binade x) (- 1022) - 52)
            in of_int (round_half_even (x / q)) * q))"

text \<open>\<^verbatim>\<open>a * b\<close> and \<^verbatim>\<open>a + b\<close> on floats (an \<^verbatim>\<open>int\<close> operand is converted first, exactly
  for the small integers of the scorers).\<close>

definition fmul :: "rat \<Rightarrow> rat \<Rightarrow> rat" where
  "fmul a b = fl (a * b)"

definition fadd :: "rat \<Rightarrow> rat \<Rightarrow> rat" where
  "fadd a b = fl (a + b)"

text \<open>\<^verbatim>\<open>a / b\<close> on two lengths: true division, the quotient correctly rounded; raises when
  the divisor is zero.\<close>

definition py_truediv :: "nat \<Rightarrow> nat \<Rightarrow> py_error + rat" where
  "py_truediv a b =
     (if b = 0 then Inl ZeroDivisionError else Inr (fl (of_nat a / of_nat b)))"

text \<open>\<^verbatim>\<open>d.get(k, default)\<close>.\<close>

definition dict_get :: "('k \<rightharpoonup> 'v) \<Rightarrow> 'k \<Rightarrow> 'v \<Rightarrow> 'v" where
  "dict_get d k dflt = (case d k of None \<Rightarrow> dflt | Some v \<Rightarrow> v)"

text \<open>\<^verbatim>\<open>max(iterable, default=d)\<close>.\<close>

fun py_max_default :: "int list \<Rightarrow> int \<Rightarrow> int" where
  "py_max_default [] d = d"
| "py_max_default (x # xs) d = fold max xs x"

text \<open>\<^verbatim>\<open>str.lower\<close> on code points below 256: the letters A to Z and the Latin-1
  capitals (192 to 222, the multiplication sign 215 apart) move up by 32.\<close>

definition lower_char :: "char \<Rightarrow> char" where
  "lower_char c =
     (let n = (of_char c :: nat)
      in if (65 \<le> n \<and> n \<le> 90) \<or> (192 \<le> n \<and> n \<le> 222 \<and> n \<noteq> 215)
         then char_of (n + 32) else c)"

definition lower :: "string \<Rightarrow> string" where
  "lower s = map lower_char s"

text \<open>\<^verbatim>\<open>needle in haystack\<close> on strings: the needle occurs as a contiguous block.\<close>

fun str_in :: "string \<Rightarrow> string \<Rightarrow> bool" where
  "str_in needle [] = (needle = [])"
| "str_in needle (c # cs) = (prefix needle (c # cs) \<or> str_in needle cs)"

text \<open>\<^verbatim>\<open>str(n)\<close> for an integer, as an f-string field prints it. A digit is
  looked up at an index below 10, a hexadecimal digit at an index below 16.\<close>

definition digit_char :: "nat \<Rightarrow> char" where
  "digit_char d = ''0123456789'' ! d"

fun str_nat :: "nat \<Rightarrow> string" where
  "str_nat n = (if n < 10 then [digit_char n] else str_nat (n div 10) @ [digit_char (n mod 10)])"

declare str_nat.simps [simp del]

definition str_int :: "int \<Rightarrow> string" where
  "str_int i = (if i < 0 then CHR ''-'' # str_nat (nat (- i)) else str_nat (nat i))"

text \<open>\<^verbatim>\<open>', '.join(xs)\<close>.\<close>

fun join_comma :: "string list \<Rightarrow> string" where
  "join_comma [] = []"
| "join_comma [x] = x"
| "join_comma (x # y # ys) = x @ '', '' @ join_comma (y # ys)"

text \<open>\<^verbatim>\<open>round(x, 1)\<close> on a float: the exact value of \<open>x\<close> is rounded to the nearest
  multiple of one tenth, a tie going to the even one, and the float nearest to that
  decimal is returned.\<close>

definition round1 :: "rat \<Rightarrow> rat" where
  "round1 x = fl (of_int (round_half_even (x * 10)) / 10)"

subsection \<open>Experience scorer\<close>

definition calculate_experience_score :: "int \<Rightarrow> int \<Rightarrow> int \<times> string" where
  "calculate_experience_score candidate_years minimum_required =
     (if candidate_years \<ge> minimum_required then
        (let bonus = min ((candidate_years - minimum_required) * 5) 20;
             score = 80 + bonus;
             assessment = ''Meets requirement with '' @ str_int candidate_years
                            @ '' years of experience''
         in (min score 100, assessment))
      else
        (let shortfall = minimum_required - candidate_years;
             score = max 0 (80 - shortfall * 15);
             assessment = ''Below target ('' @ str_int candidate_years @ '' years vs ''
                            @ str_int minimum_required @ '' required)''
         in (min score 100, assessment)))"

subsection \<open>Education scorer\<close>

definition education_hierarchy :: "string \<rightharpoonup> int" where
  "education_hierarchy = map_of
     [(''High School or Certificate'', 1),
      (''Associate Degree'', 2),
      (''Bachelor's Degree'', 3),
      (''Master's Degree'', 4),
      (''PhD'', 5)]"

definition required_level_of :: "string \<Rightarrow> int" where
  "required_level_of minimum_education = dict_get education_hierarchy minimum_education 3"

definition candidate_level_of :: "string list \<Rightarrow> int" where
  "candidate_level_of candidate_education =
     py_max_default (map (\<lambda>edu. dict_get education_hierarchy edu 0) candidate_education) 0"

definition calculate_education_score :: "string list \<Rightarrow> string \<Rightarrow> py_error + (int \<times> string)" where
  "calculate_education_score candidate_education minimum_education =
     (let required_level = required_level_of minimum_education;
          candidate_level = candidate_level_of candidate_education
      in if candidate_level \<ge> required_level then
           (case py_index0 candidate_education of
              Inl e \<Rightarrow> Inl e
            | Inr first \<Rightarrow>
                Inr (min 95 100, ''Meets or exceeds requirement: '' @ first))
         else if candidate_level = required_level - 1 then
           (case py_index0 candidate_education of
              Inl e \<Rightarrow> Inl e
            | Inr first \<Rightarrow>
                Inr (min 70 100, ''One level below requirement: '' @ first))
         else
           (case (if candidate_education \<noteq> [] then py_index0 candidate_education
                  else Inr ''Not specified'') of
              Inl e \<Rightarrow> Inl e
            | Inr shown \<Rightarrow>
                Inr (min (max 0 (50 - (required_level - candidate_level) * 15)) 100,
                     ''Below requirement: '' @ shown)))"

subsection \<open>Skill matcher\<close>

text \<open>
  The source assigns \<^verbatim>\<open>matched_required\<close> twice; the first value, computed from
  \<^verbatim>\<open>candidate_skills_lower\<close>, is overwritten by the loop before it is read. Both
  assignments are kept, the second shadowing the first. \<^verbatim>\<open>nice_to_have\<close> is a
  parameter of the source function and so of this one.
\<close>

definition calculate_skill_match_score ::
  "string list \<Rightarrow> string list \<Rightarrow> string list \<Rightarrow> string list
     \<Rightarrow> py_error + (rat \<times> string list \<times> string list \<times> string list)" where
  "calculate_skill_match_score candidate_skills required_skills preferred_skills nice_to_have =
     (let candidate_skills_lower = map lower candidate_skills;
          matched_required =
            filter (\<lambda>s. list_ex (\<lambda>req. list_ex (\<lambda>cand. str_in (lower req) cand)
                                               candidate_skills_lower) [s])
                   required_skills;
          matched_required =
            filter (\<lambda>req_skill.
                      list_ex (\<lambda>cand_skill. str_in (lower req_skill) (lower cand_skill))
                              candidate_skills)
                   required_skills;
          missing_required = filter (\<lambda>s. s \<notin> set matched_required) required_skills;
          matched_preferred =
            filter (\<lambda>pref_skill.
                      list_ex (\<lambda>cand_skill. str_in (lower pref_skill) (lower cand_skill))
                              candidate_skills)
                   preferred_skills
      in case (if required_skills \<noteq> []
               then py_truediv (length matched_required) (length required_skills)
               else Inr 0) of
           Inl e \<Rightarrow> Inl e
         | Inr required_match_rate \<Rightarrow>
             (case (if preferred_skills \<noteq> []
                    then py_truediv (length matched_preferred) (length preferred_skills)
                    else Inr 0) of
                Inl e \<Rightarrow> Inl e
              | Inr preferred_match_rate \<Rightarrow>
                  (let skill_score = fadd (fmul required_match_rate 70)
                                          (fmul preferred_match_rate 30)
                   in Inr (skill_score, matched_required, missing_required,
                           matched_preferred))))"

text \<open>The test of the two loops: some candidate skill, lower-cased, has the lower-cased
  job skill inside it.\<close>

definition skill_matched :: "string list \<Rightarrow> string \<Rightarrow> bool" where
  "skill_matched candidate_skills job_skill =
     list_ex (\<lambda>cand_skill. str_in (lower job_skill) (lower cand_skill)) candidate_skills"

text \<open>The match rate in the spec's words: the matched count over the length of the job
  list, as a float, and 0 when the job list is empty.\<close>

definition match_rate :: "string list \<Rightarrow> string list \<Rightarrow> rat" where
  "match_rate matched job_list =
     (if job_list = [] then 0
      else fl (of_nat (length matched) / of_nat (length job_list)))"

subsection \<open>Printing a list of strings\<close>

text \<open>
  \<^verbatim>\<open>str(past_roles)\<close> prints the list with each element as \<^verbatim>\<open>repr\<close> prints a string:
  in single quotes, or in double quotes when the string has a single quote and no double
  one; the quote in use and the backslash escaped; tab, newline and carriage return as
  \<^verbatim>\<open>\t\<close>, \<^verbatim>\<open>\n\<close>, \<^verbatim>\<open>\r\<close>; every other non-printable code point below 256 as
  \<^verbatim>\<open>\xhh\<close>.
\<close>

definition hex_digit :: "nat \<Rightarrow> char" where
  "hex_digit d = ''0123456789abcdef'' ! d"

definition repr_char :: "char \<Rightarrow> char \<Rightarrow> string" where
  "repr_char quote c =
     (let n = (of_char c :: nat)
      in if c = quote \<or> n = 92 then [CHR 0x5C, c]
         else if n = 9 then [CHR 0x5C, CHR ''t'']
         else if n = 10 then [CHR 0x5C, CHR ''n'']
         else if n = 13 then [CHR 0x5C, CHR ''r'']
         else if n < 32 \<or> n = 127 \<or> (128 \<le> n \<and> n \<le> 160) \<or> n = 173
           then [CHR 0x5C, CHR ''x'', hex_digit (n div 16), hex_digit (n mod 16)]
         else [c])"

definition repr_str :: "string \<Rightarrow> string" where
  "repr_str s =
     (let quote = (if CHR 0x27 \<in> set s \<and> CHR 0x22 \<notin> set s
                   then CHR 0x22 else CHR 0x27)
      in [quote] @ concat (map (repr_char quote) s) @ [quote])"

definition str_list :: "string list \<Rightarrow> string" where
  "str_list xs = ''['' @ join_comma (map repr_str xs) @ '']''"

subsection \<open>Score aggregator\<close>

record candidate_data =
  name :: string
  email :: string
  phone :: "string option"
  skills :: "string list"
  experience_years :: int
  education :: "string list"
  past_roles :: "string list"
  summary :: string

record job_requirements =
  title :: string
  required_skills :: "string list"
  minimum_experience_years :: int
  preferred_skills :: "string list"
  nice_to_have_skills :: "string list"
  minimum_education :: string

record scoring_criteria =
  required_skills_weight :: rat
  preferred_skills_weight :: rat
  experience_weight :: rat
  education_weight :: rat
  soft_skills_weight :: rat

text \<open>The dictionary that \<^verbatim>\<open>score_candidate\<close> returns, one field for each key.\<close>

record scoring_results =
  overall_score :: rat
  skills_score :: rat
  experience_score :: rat
  education_score :: rat
  matched_required_skills :: "string list"
  missing_required_skills :: "string list"
  matched_preferred_skills :: "string list"
  experience_assessment :: string
  education_assessment :: string

text \<open>The soft-skill block of \<^verbatim>\<open>score_candidate\<close>: 60, raised to 80 by a keyword in the
  lower-cased summary, then set to 90 by a seniority word in the lower-cased printout of the
  list of past roles.\<close>

definition soft_skills_keywords :: "string list" where
  "soft_skills_keywords =
     [''leadership'', ''communication'', ''collaboration'', ''management'', ''team'']"

definition soft_skill_score_of :: "string \<Rightarrow> string list \<Rightarrow> int" where
  "soft_skill_score_of summary_text roles =
     (let soft_skill_score = 60;
          soft_skill_score =
            (if list_ex (\<lambda>kw. str_in kw (lower summary_text)) soft_skills_keywords
             then 80 else soft_skill_score);
          soft_skill_score =
            (if list_ex (\<lambda>kw. str_in kw (lower (str_list roles)))
                        [''manager'', ''lead'', ''director'']
             then 90 else soft_skill_score)
      in soft_skill_score)"

text \<open>The weighted sum, before \<^verbatim>\<open>round\<close>: five products added from left to right, each
  product and each sum a floating-point operation.\<close>

definition weighted_overall :: "rat \<Rightarrow> int \<Rightarrow> int \<Rightarrow> int \<Rightarrow> scoring_criteria \<Rightarrow> rat" where
  "weighted_overall skill_score exp_score edu_score soft_skill_score weights =
     fadd (fadd (fadd (fadd
       (fmul skill_score (required_skills_weight weights))
       (fmul (fmul skill_score (preferred_skills_weight weights)) (1 / 2)))
       (fmul (of_int exp_score) (experience_weight weights)))
       (fmul (of_int edu_score) (education_weight weights)))
       (fmul (of_int soft_skill_score) (soft_skills_weight weights))"

text \<open>Weights of magnitude at most \<open>2^1000\<close>: with scores up to 100 and five terms, no
  product and no partial sum reaches \<open>2^1024\<close>, where binary64 overflows.\<close>

definition weights_in_range :: "scoring_criteria \<Rightarrow> bool" where
  "weights_in_range weights \<longleftrightarrow>
     \<bar>required_skills_weight weights\<bar> \<le> 2 ^ 1000
     \<and> \<bar>preferred_skills_weight weights\<bar> \<le> 2 ^ 1000
     \<and> \<bar>experience_weight weights\<bar> \<le> 2 ^ 1000
     \<and> \<bar>education_weight weights\<bar> \<le> 2 ^ 1000
     \<and> \<bar>soft_skills_weight weights\<bar> \<le> 2 ^ 1000"

text \<open>
  \<^verbatim>\<open>round(n, 1)\<close> of a Python \<^verbatim>\<open>int\<close> is that \<^verbatim>\<open>int\<close>, so the experience and education
  scores, which are integers, are stored as they are.
\<close>

definition score_candidate ::
  "candidate_data \<Rightarrow> job_requirements \<Rightarrow> scoring_criteria \<Rightarrow> py_error + scoring_results" where
  "score_candidate cand job weights =
     (case calculate_skill_match_score (skills cand) (required_skills job)
             (preferred_skills job) (nice_to_have_skills job) of
        Inl e \<Rightarrow> Inl e
      | Inr (skill_score, matched_req, missing_req, matched_pref) \<Rightarrow>
          (case calculate_experience_score (experience_years cand)
                  (minimum_experience_years job) of
             (exp_score, exp_assessment) \<Rightarrow>
               (case calculate_education_score (education cand) (minimum_education job) of
                  Inl e \<Rightarrow> Inl e
                | Inr (edu_score, edu_assessment) \<Rightarrow>
                    (let soft_skill_score = soft_skill_score_of (summary cand) (past_roles cand);
                         overall = weighted_overall skill_score exp_score edu_score
                                     soft_skill_score weights
                     in Inr \<lparr> overall_score = round1 overall,
                              skills_score = round1 skill_score,
                              experience_score = of_int exp_score,
                              education_score = of_int edu_score,
                              matched_required_skills = matched_req,
                              missing_required_skills = missing_req,
                              matched_preferred_skills = matched_pref,
                              experience_assessment = exp_assessment,
                              education_assessment = edu_assessment \<rparr>))))"

subsection \<open>Recommendation engine\<close>

text \<open>
  The reasoning strings embed \<^verbatim>\<open>overall_score\<close> as an f-string field, which prints a
  float by Python's shortest round-trip algorithm. That printer belongs to the language
  and not to the repository: it is the parameter \<open>float_str\<close>.
\<close>

definition generate_recommendation ::
  "(rat \<Rightarrow> string) \<Rightarrow> scoring_results \<Rightarrow> candidate_data
     \<Rightarrow> py_error + (string \<times> string \<times> string)" where
  "generate_recommendation float_str results cand =
     (let overall = overall_score results;
          missing_required = missing_required_skills results;
          matched_required = matched_required_skills results;
          exp_score = experience_score results
      in if overall \<ge> 80 \<and> length missing_required = 0 then
           Inr (''hire'',
                (if overall \<ge> 90 then ''high'' else ''medium''),
                ''Strong candidate with '' @ float_str overall
                  @ ''% overall score. Meets all required skills and experience requirements.'')
         else if overall \<ge> 70 \<and> length missing_required \<le> 1 then
           (if missing_required \<noteq> [] then
              (case py_index0 missing_required of
                 Inl e \<Rightarrow> Inl e
               | Inr first_missing \<Rightarrow>
                   Inr (''review'', ''medium'',
                        ''Solid candidate ('' @ float_str overall @ ''%) but missing ''
                          @ first_missing
                          @ ''. Worth reviewing for potential with training.''))
            else
              Inr (''review'', ''medium'',
                   ''Good candidate ('' @ float_str overall
                     @ ''%) but slightly below ideal experience level. Recommend interview to assess potential.''))
         else if overall \<ge> 60 then
           Inr (''review'', ''low'',
                ''Moderate candidate ('' @ float_str overall
                  @ ''%) with gaps in required skills. May be trainable but requires further assessment.'')
         else
           Inr (''pass'', ''high'',
                ''Does not meet minimum requirements ('' @ float_str overall
                  @ ''%). Missing multiple critical skills: ''
                  @ join_comma (take 2 missing_required)))"

text \<open>The tier table in the spec's words, as a function of the overall score and the
  number of missing required skills.\<close>

definition recommendation_tier :: "rat \<Rightarrow> nat \<Rightarrow> string \<times> string" where
  "recommendation_tier overall missing_count =
     (if overall \<ge> 80 \<and> missing_count = 0
        then (''hire'', if overall \<ge> 90 then ''high'' else ''medium'')
      else if overall \<ge> 70 \<and> missing_count \<le> 1 then (''review'', ''medium'')
      else if overall \<ge> 60 then (''review'', ''low'')
      else (''pass'', ''high''))"

section \<open>Properties\<close>

subsection \<open>Floating-point rounding\<close>

text \<open>Rounding to an integer stays within one half and is monotone against integer
  bounds.\<close>

lemma round_half_even_near: "\<bar>of_int (round_half_even x) - x\<bar> \<le> 1 / 2"
proof -
  have "of_int \<lfloor>x\<rfloor> \<le> x" and "x < of_int \<lfloor>x\<rfloor> + 1"
    by linarith+
  then show ?thesis
    by (auto simp add: round_half_even_def Let_def)
qed

lemma round_half_even_nonneg: "0 \<le> x \<Longrightarrow> 0 \<le> round_half_even x"
  by (auto simp add: round_half_even_def Let_def)

lemma round_half_even_le:
  assumes "x \<le> of_int n"
  shows "round_half_even x \<le> n"
proof -
  have fn: "\<lfloor>x\<rfloor> \<le> n" using assms by (simp add: floor_le_iff)
  show ?thesis
  proof (cases "\<lfloor>x\<rfloor> = n")
    case True
    then have "x - of_int \<lfloor>x\<rfloor> \<le> 0" using assms by simp
    then have "x - of_int \<lfloor>x\<rfloor> < 1 / 2" by linarith
    with fn show ?thesis by (simp add: round_half_even_def Let_def)
  next
    case False
    with fn have "\<lfloor>x\<rfloor> + 1 \<le> n" by linarith
    with fn show ?thesis by (auto simp add: round_half_even_def Let_def)
  qed
qed

lemma round_half_even_below_half:
  assumes "x < of_int n + 1 / 2"
  shows "round_half_even x \<le> n"
proof -
  have "\<bar>of_int (round_half_even x) - x\<bar> \<le> 1 / 2" by (rule round_half_even_near)
  with assms have "(of_int (round_half_even x) :: rat) < of_int n + 1" by linarith
  then have "(of_int (round_half_even x) :: rat) < of_int (n + 1)" by simp
  then have "round_half_even x < n + 1" by (simp only: of_int_less_iff)
  then show ?thesis by simp
qed

text \<open>The binade exponent brackets the magnitude, so the significand \<open>x / q\<close> that
  \<open>fl\<close> rounds has 53 bits in the normal range.\<close>

lemma pow2_pos: "0 < (power_int 2 k :: rat)"
  by (simp add: power_int_def)

lemma binade_bounds:
  assumes "x \<noteq> 0"
  shows "power_int 2 (binade x) \<le> \<bar>x\<bar>" and "\<bar>x\<bar> < power_int 2 (binade x + 1)"
proof -
  obtain n d where nd: "quotient_of \<bar>x\<bar> = (n, d)" by (cases "quotient_of \<bar>x\<bar>")
  have d: "0 < d" using nd by (rule quotient_of_denom_pos)
  have x: "\<bar>x\<bar> = of_int n / of_int d" using nd by (rule quotient_of_div)
  have "0 < \<bar>x\<bar>" using assms by simp
  with x d have n: "0 < n" by (simp add: zero_less_divide_iff)
  let ?bn = "bitlen n" and ?bd = "bitlen d"
  have bn: "2 ^ nat (?bn - 1) \<le> n" "n < 2 ^ nat ?bn" using bitlen_bounds [OF n] by auto
  have bd: "2 ^ nat (?bd - 1) \<le> d" "d < 2 ^ nat ?bd" using bitlen_bounds [OF d] by auto
  have bn1: "1 \<le> ?bn" using n by (auto simp: bitlen_alt_def)
  have bd1: "1 \<le> ?bd" using d by (auto simp: bitlen_alt_def)
  have rn: "(power_int 2 (?bn - 1) :: rat) \<le> of_int n" "(of_int n :: rat) < power_int 2 ?bn"
  proof -
    have "(of_int (2 ^ nat (?bn - 1)) :: rat) \<le> of_int n" using bn(1) by (simp only: of_int_le_iff)
    then show "(power_int 2 (?bn - 1) :: rat) \<le> of_int n" using bn1 by (simp add: power_int_def)
    have "(of_int n :: rat) < of_int (2 ^ nat ?bn)" using bn(2) by (simp only: of_int_less_iff)
    then show "(of_int n :: rat) < power_int 2 ?bn" using bn1 by (simp add: power_int_def)
  qed
  have rd: "(power_int 2 (?bd - 1) :: rat) \<le> of_int d" "(of_int d :: rat) < power_int 2 ?bd"
  proof -
    have "(of_int (2 ^ nat (?bd - 1)) :: rat) \<le> of_int d" using bd(1) by (simp only: of_int_le_iff)
    then show "(power_int 2 (?bd - 1) :: rat) \<le> of_int d" using bd1 by (simp add: power_int_def)
    have "(of_int d :: rat) < of_int (2 ^ nat ?bd)" using bd(2) by (simp only: of_int_less_iff)
    then show "(of_int d :: rat) < power_int 2 ?bd" using bd1 by (simp add: power_int_def)
  qed
  have dpos: "(0::rat) < of_int d" using d by simp
  have npos: "(0::rat) < of_int n" using n by simp
  have low: "(power_int 2 (?bn - ?bd - 1) :: rat) \<le> \<bar>x\<bar>"
  proof -
    have "(power_int 2 (?bn - ?bd - 1) :: rat) = power_int 2 (?bn - 1) / power_int 2 ?bd"
      using power_int_diff [of "2::rat" "?bn - 1" ?bd] by (simp add: algebra_simps)
    also have "\<dots> \<le> of_int n / power_int 2 ?bd"
      using rn(1) pow2_pos [of ?bd] by (simp add: divide_right_mono)
    also have "\<dots> \<le> of_int n / of_int d"
      using rd(2) npos dpos by (simp add: frac_le)
    finally show ?thesis using x by simp
  qed
  have high: "\<bar>x\<bar> < (power_int 2 (?bn - ?bd + 1) :: rat)"
  proof -
    have "of_int n / of_int d < (power_int 2 ?bn :: rat) / of_int d"
      using rn(2) dpos by (simp add: divide_strict_right_mono)
    also have "\<dots> \<le> power_int 2 ?bn / power_int 2 (?bd - 1)"
      using rd(1) pow2_pos [of ?bn] pow2_pos [of "?bd - 1"] by (simp add: frac_le)
    also have "\<dots> = power_int 2 (?bn - ?bd + 1)"
      using power_int_diff [of "2::rat" ?bn "?bd - 1"] by (simp add: algebra_simps)
    finally show ?thesis using x by simp
  qed
  have b: "binade x = (if power_int 2 (?bn - ?bd) \<le> \<bar>x\<bar> then ?bn - ?bd else ?bn - ?bd - 1)"
    by (simp add: binade_def nd Let_def)
  show "power_int 2 (binade x) \<le> \<bar>x\<bar>"
    using low by (simp add: b)
  show "\<bar>x\<bar> < power_int 2 (binade x + 1)"
    using high by (auto simp add: b not_le)
qed

text \<open>What the proofs below use of \<open>fl\<close>: it keeps the sign, it does not cross an integer
  below \<open>2^53\<close>, and its error is at most half a unit in the last place.\<close>

lemma fl_nonneg:
  assumes "0 \<le> x"
  shows "0 \<le> fl x"
proof (cases "x = 0")
  case True
  then show ?thesis by (simp add: fl_def)
next
  case False
  let ?q = "power_int 2 (max (binade x) (- 1022) - 52) :: rat"
  have q: "0 < ?q" by (rule pow2_pos)
  with assms have "0 \<le> x / ?q" by simp
  then have "0 \<le> round_half_even (x / ?q)" by (rule round_half_even_nonneg)
  then have "(0::rat) \<le> of_int (round_half_even (x / ?q))" by simp
  with q have "0 \<le> of_int (round_half_even (x / ?q)) * ?q" by simp
  with False show ?thesis by (simp add: fl_def Let_def)
qed

lemma pow2_mono: "a \<le> b \<Longrightarrow> (power_int 2 a :: rat) \<le> power_int 2 b"
  by (rule power_int_increasing) simp_all

lemma fl_le_int:
  assumes "x \<le> of_int m" and "0 \<le> m" and "m < 2 ^ 53"
  shows "fl x \<le> of_int m"
proof (cases "x \<le> 0")
  case True
  show ?thesis
  proof (cases "x = 0")
    case True
    with assms(2) show ?thesis by (simp add: fl_def)
  next
    case False
    let ?q = "power_int 2 (max (binade x) (- 1022) - 52) :: rat"
    have q: "0 < ?q" by (rule pow2_pos)
    with \<open>x \<le> 0\<close> have "x / ?q \<le> of_int 0" by (simp add: divide_le_0_iff)
    then have "round_half_even (x / ?q) \<le> 0" by (rule round_half_even_le)
    then have "(of_int (round_half_even (x / ?q)) :: rat) \<le> 0" by simp
    with q have "of_int (round_half_even (x / ?q)) * ?q \<le> 0"
      by (simp add: mult_le_0_iff)
    with False assms(2) show ?thesis by (simp add: fl_def Let_def)
  qed
next
  case False
  then have pos: "0 < x" by simp
  then have nz: "x \<noteq> 0" by simp
  let ?e = "max (binade x) (- 1022)"
  let ?q = "power_int 2 (?e - 52) :: rat"
  have q: "0 < ?q" by (rule pow2_pos)
  have "power_int 2 (binade x) \<le> \<bar>x\<bar>" using nz by (rule binade_bounds)
  with pos assms(1) have "(power_int 2 (binade x) :: rat) \<le> of_int m" by simp
  also have "(of_int m :: rat) < of_int (2 ^ 53)" using assms(3) by (simp only: of_int_less_iff)
  finally have lt: "(power_int 2 (binade x) :: rat) < power_int 2 53" by simp
  have "binade x < 53"
  proof (rule ccontr)
    assume "\<not> binade x < 53"
    then have "(power_int 2 53 :: rat) \<le> power_int 2 (binade x)"
      by (intro pow2_mono) simp
    with lt show False by simp
  qed
  then have e: "?e \<le> 52" by simp
  define N where "N = nat (52 - ?e)"
  have qN: "?q = 1 / 2 ^ N"
    using e by (simp add: power_int_def N_def field_simps)
  have "x / ?q \<le> of_int m / ?q" using assms(1) q by (simp add: divide_right_mono)
  also have "of_int m / ?q = of_int (m * 2 ^ N)" by (simp add: qN)
  finally have "round_half_even (x / ?q) \<le> m * 2 ^ N" by (rule round_half_even_le)
  then have "(of_int (round_half_even (x / ?q)) :: rat) \<le> of_int (m * 2 ^ N)"
    by (simp only: of_int_le_iff)
  then have "of_int (round_half_even (x / ?q)) * ?q \<le> of_int (m * 2 ^ N) * ?q"
    using q by (simp add: mult_right_mono)
  also have "of_int (m * 2 ^ N) * ?q = of_int m" by (simp add: qN)
  finally show ?thesis using nz by (simp add: fl_def Let_def)
qed

lemma fl_error:
  "\<bar>fl x - x\<bar> \<le> \<bar>x\<bar> / 2 ^ 53 + 1 / 2 ^ 1075"
proof (cases "x = 0")
  case True
  then show ?thesis by (simp add: fl_def)
next
  case False
  let ?e = "max (binade x) (- 1022)"
  let ?q = "power_int 2 (?e - 52) :: rat"
  have q: "0 < ?q" by (rule pow2_pos)
  have "\<bar>of_int (round_half_even (x / ?q)) - x / ?q\<bar> \<le> 1 / 2"
    by (rule round_half_even_near)
  then have "\<bar>of_int (round_half_even (x / ?q)) - x / ?q\<bar> * ?q \<le> 1 / 2 * ?q"
    using q by (simp add: mult_right_mono)
  moreover have "\<bar>of_int (round_half_even (x / ?q)) - x / ?q\<bar> * ?q
      = \<bar>of_int (round_half_even (x / ?q)) * ?q - x\<bar>"
  proof -
    have "\<bar>of_int (round_half_even (x / ?q)) - x / ?q\<bar> * ?q
        = \<bar>(of_int (round_half_even (x / ?q)) - x / ?q) * ?q\<bar>"
      using q by (simp add: abs_mult)
    also have "(of_int (round_half_even (x / ?q)) - x / ?q) * ?q
        = of_int (round_half_even (x / ?q)) * ?q - x"
      using q by (simp add: field_simps)
    finally show ?thesis .
  qed
  ultimately have err: "\<bar>fl x - x\<bar> \<le> ?q / 2"
    using False by (simp add: fl_def Let_def)
  have "?q / 2 \<le> \<bar>x\<bar> / 2 ^ 53 + 1 / 2 ^ 1075"
  proof (cases "- 1022 \<le> binade x")
    case True
    then have "?q = power_int 2 (binade x) / 2 ^ 52"
      using power_int_diff [of "2::rat" "binade x" 52] by (simp add: max_def)
    moreover have "power_int 2 (binade x) \<le> \<bar>x\<bar>" using False by (rule binade_bounds)
    ultimately have "?q / 2 \<le> \<bar>x\<bar> / 2 ^ 53" by (simp add: field_simps)
    then show ?thesis by (simp add: add_increasing2)
  next
    case False
    then have "?q = 1 / 2 ^ 1074" by (simp add: max_def power_int_def field_simps)
    then have "?q / 2 = 1 / 2 ^ 1075" by simp
    then show ?thesis by simp
  qed
  with err show ?thesis by linarith
qed

lemma fl_approx: "\<bar>fl x - x\<bar> \<le> \<bar>x\<bar> / 1000000000 + 1 / 1000000000"
proof -
  have "\<bar>fl x - x\<bar> \<le> \<bar>x\<bar> / 2 ^ 53 + 1 / 2 ^ 1075" by (rule fl_error)
  moreover have "(1::rat) / 2 ^ 1075 \<le> 1 / 1000000000" by simp
  moreover have "\<bar>x\<bar> / 2 ^ 53 \<le> \<bar>x\<bar> / 1000000000"
    by (intro divide_left_mono) simp_all
  ultimately show ?thesis by linarith
qed

lemma fl_bounds:
  assumes "0 \<le> x"
  shows "0 \<le> fl x"
    and "fl x \<le> x * (1000000001 / 1000000000) + 1 / 1000000000"
    and "x * (999999999 / 1000000000) - 1 / 1000000000 \<le> fl x"
proof -
  show "0 \<le> fl x" using assms by (rule fl_nonneg)
  from assms fl_approx [of x]
  show "fl x \<le> x * (1000000001 / 1000000000) + 1 / 1000000000" by linarith
  from assms fl_approx [of x]
  show "x * (999999999 / 1000000000) - 1 / 1000000000 \<le> fl x" by linarith
qed

lemma float_sum_one:
  assumes w: "0 \<le> w1" "0 \<le> w2" "0 \<le> w3" "0 \<le> w4" "0 \<le> w5"
    and one: "fadd (fadd (fadd (fadd w1 w2) w3) w4) w5 = 1"
  shows "w1 + w2 + w3 + w4 + w5 \<le> 1 + 1 / 1000000"
proof -
  define t1 where "t1 = fadd w1 w2"
  define t2 where "t2 = fadd t1 w3"
  define t3 where "t3 = fadd t2 w4"
  define t4 where "t4 = fadd t3 w5"
  have x1: "0 \<le> w1 + w2" using w by simp
  have b1: "0 \<le> t1"
    and c1: "(w1 + w2) * (999999999 / 1000000000) - 1 / 1000000000 \<le> t1"
    unfolding t1_def fadd_def using fl_bounds [OF x1] by simp_all
  have x2: "0 \<le> t1 + w3" using b1 w by simp
  have b2: "0 \<le> t2"
    and c2: "(t1 + w3) * (999999999 / 1000000000) - 1 / 1000000000 \<le> t2"
    unfolding t2_def fadd_def using fl_bounds [OF x2] by simp_all
  have x3: "0 \<le> t2 + w4" using b2 w by simp
  have b3: "0 \<le> t3"
    and c3: "(t2 + w4) * (999999999 / 1000000000) - 1 / 1000000000 \<le> t3"
    unfolding t3_def fadd_def using fl_bounds [OF x3] by simp_all
  have x4: "0 \<le> t3 + w5" using b3 w by simp
  have c4: "(t3 + w5) * (999999999 / 1000000000) - 1 / 1000000000 \<le> t4"
    unfolding t4_def fadd_def using fl_bounds [OF x4] by simp_all
  have d2: "(w1 + w2 + w3) * (999999998 / 1000000000) - 2 / 1000000000 \<le> t2"
    using c1 c2 w unfolding distrib_right by linarith
  have d3: "(w1 + w2 + w3 + w4) * (999999997 / 1000000000) - 3 / 1000000000 \<le> t3"
    using d2 c3 w unfolding distrib_right by linarith
  have d4: "(w1 + w2 + w3 + w4 + w5) * (999999996 / 1000000000) - 4 / 1000000000 \<le> t4"
    using d3 c4 w unfolding distrib_right by linarith
  have "t4 = 1" using one by (simp add: t1_def t2_def t3_def t4_def)
  with d4 show ?thesis unfolding distrib_right by linarith
qed

subsection \<open>Experience scorer\<close>

text \<open>
  Claim C8. When the candidate's years reach the minimum, the score is
  \<open>80 + min ((candidate - minimum) * 5) 20\<close>, capped at 100, and the assessment is the
  "Meets requirement" sentence with the candidate's years; otherwise the score is
  \<open>max 0 (80 - (minimum - candidate) * 15)\<close> and the assessment is the "Below target"
  sentence with both numbers. Seven years against a minimum of five score 90. The
  equations hold for all integers, so for the non-negative ones of the claim.
\<close>

theorem experience_score_cases:
  "(minimum_required \<le> candidate_years \<longrightarrow>
      calculate_experience_score candidate_years minimum_required =
        (min (80 + min ((candidate_years - minimum_required) * 5) 20) 100,
         ''Meets requirement with '' @ str_int candidate_years @ '' years of experience''))
   \<and> (candidate_years < minimum_required \<longrightarrow>
      calculate_experience_score candidate_years minimum_required =
        (max 0 (80 - (minimum_required - candidate_years) * 15),
         ''Below target ('' @ str_int candidate_years @ '' years vs ''
           @ str_int minimum_required @ '' required)''))
   \<and> calculate_experience_score 7 5 = (90, ''Meets requirement with 7 years of experience'')"
  by (simp add: calculate_experience_score_def Let_def str_int_def str_nat.simps digit_char_def)

theorem experience_score_cases_witness:
  "(3::int) < 5
   \<and> calculate_experience_score 3 5 = (50, ''Below target (3 years vs 5 required)'')"
  using experience_score_cases [of 5 3]
  by (simp add: str_int_def str_nat.simps digit_char_def)

text \<open>
  Claim C9. For a fixed minimum the experience score does not decrease when the
  candidate's years increase, and the score always lies between 0 and 100.
\<close>

theorem experience_score_monotone_bounded:
  "(c1 \<le> c2 \<longrightarrow>
      fst (calculate_experience_score c1 m) \<le> fst (calculate_experience_score c2 m))
   \<and> 0 \<le> fst (calculate_experience_score c m)
   \<and> fst (calculate_experience_score c m) \<le> 100"
  by (auto simp add: calculate_experience_score_def Let_def min_def max_def)

theorem experience_score_monotone_bounded_witness:
  "(4::int) \<le> 5
   \<and> fst (calculate_experience_score 4 5) \<le> fst (calculate_experience_score 5 5)
   \<and> 0 \<le> fst (calculate_experience_score 9 5)
   \<and> fst (calculate_experience_score 9 5) \<le> 100"
  using experience_score_monotone_bounded [of 4 5 5 9] by simp

lemma experience_score_bounds:
  "0 \<le> fst (calculate_experience_score c m) \<and> fst (calculate_experience_score c m) \<le> 100"
  by (auto simp add: calculate_experience_score_def Let_def min_def max_def)

subsection \<open>Education scorer\<close>

text \<open>
  Claim C5, as the spec states it, fails: an empty education list against
  "Bachelor's Degree" does not score 0.
\<close>

theorem empty_bachelor_score_not_zero:
  "map_sum id fst (calculate_education_score [] ''Bachelor's Degree'') \<noteq> Inr 0"
  by (simp add: calculate_education_score_def candidate_level_of_def required_level_of_def
      dict_get_def education_hierarchy_def)

text \<open>
  Claim C5, amended. An empty education list against "Bachelor's Degree" has candidate
  level 0 and required level 3 and scores \<open>max 0 (50 - 3 * 15) = 5\<close>.
\<close>

theorem education_empty_bachelor:
  "candidate_level_of [] = 0 \<and> required_level_of ''Bachelor's Degree'' = 3
   \<and> calculate_education_score [] ''Bachelor's Degree''
       = Inr (5, ''Below requirement: Not specified'')"
  by (simp add: calculate_education_score_def candidate_level_of_def required_level_of_def
      dict_get_def education_hierarchy_def)

text \<open>When the education scorer raises, and the range of what it returns.\<close>

lemma required_level_cases:
  "required_level_of m \<in> {1, 2, 3, 4, 5}"
  by (simp add: required_level_of_def dict_get_def education_hierarchy_def)

lemma required_level_one:
  "required_level_of m = 1 \<longleftrightarrow> m = ''High School or Certificate''"
  by (simp add: required_level_of_def dict_get_def education_hierarchy_def)

lemma education_score_raises_iff:
  "calculate_education_score edu m = Inl e
     \<longleftrightarrow> e = IndexError \<and> edu = [] \<and> m = ''High School or Certificate''"
proof (cases edu)
  case Nil
  have "required_level_of m \<in> {1, 2, 3, 4, 5}" by (rule required_level_cases)
  then show ?thesis
    using required_level_one [of m] Nil
    by (auto simp add: calculate_education_score_def candidate_level_of_def py_index0_def Let_def)
next
  case (Cons a list)
  then show ?thesis
    by (simp add: calculate_education_score_def py_index0_def Let_def)
qed

lemma education_score_range:
  assumes "calculate_education_score edu m = Inr (d, a)"
  shows "0 \<le> d \<and> d \<le> 100"
  using assms
  by (auto simp add: calculate_education_score_def Let_def split: if_splits sum.splits)

subsection \<open>Skill matcher\<close>

text \<open>Python's \<^verbatim>\<open>in\<close> on strings is the contiguous-sublist relation, and on lower-cased
  strings it finds a block of the candidate skill that equals the job skill up to case.\<close>

lemma str_in_iff_sublist: "str_in needle hay \<longleftrightarrow> sublist needle hay"
  by (induction hay) (auto simp: sublist_Cons_right)

lemma lower_block:
  "sublist (lower s) (lower c) \<longleftrightarrow> (\<exists>p t q. c = p @ t @ q \<and> lower t = lower s)"
proof
  assume "sublist (lower s) (lower c)"
  then obtain ps ss where "map lower_char c = ps @ (map lower_char s @ ss)"
    by (auto simp: sublist_def lower_def)
  then have "\<exists>p r. c = p @ r \<and> ps = map lower_char p
               \<and> map lower_char s @ ss = map lower_char r"
    by (simp only: map_eq_append_conv)
  then obtain p r where c: "c = p @ r" and r: "map lower_char r = map lower_char s @ ss"
    by metis
  from r have "\<exists>t q. r = t @ q \<and> map lower_char s = map lower_char t
                 \<and> ss = map lower_char q"
    by (simp only: map_eq_append_conv)
  then obtain t q where "r = t @ q" and "map lower_char t = map lower_char s"
    by metis
  with c show "\<exists>p t q. c = p @ t @ q \<and> lower t = lower s"
    by (auto simp: lower_def)
next
  assume "\<exists>p t q. c = p @ t @ q \<and> lower t = lower s"
  then obtain p t q where "c = p @ t @ q" and "lower t = lower s" by blast
  then have "lower c = lower p @ lower s @ lower q"
    by (simp add: lower_def)
  then show "sublist (lower s) (lower c)"
    unfolding sublist_def by blast
qed

lemma skill_matched_iff:
  "skill_matched cs s \<longleftrightarrow> (\<exists>c \<in> set cs. \<exists>p t q. c = p @ t @ q \<and> lower t = lower s)"
  by (simp add: skill_matched_def list_ex_iff str_in_iff_sublist lower_block)

lemma missing_filter:
  "filter (\<lambda>s. s \<notin> set (filter P rs)) rs = filter (\<lambda>s. \<not> P s) rs"
  by (rule filter_cong) auto

lemma skill_match_result:
  "calculate_skill_match_score cs rs ps n =
     Inr (fadd (fmul (match_rate (filter (skill_matched cs) rs) rs) 70)
               (fmul (match_rate (filter (skill_matched cs) ps) ps) 30),
          filter (skill_matched cs) rs,
          filter (\<lambda>s. \<not> skill_matched cs s) rs,
          filter (skill_matched cs) ps)"
proof -
  have m: "(\<lambda>job_skill. list_ex (\<lambda>cand_skill. str_in (lower job_skill) (lower cand_skill)) cs)
             = skill_matched cs"
    by (simp add: skill_matched_def fun_eq_iff)
  show ?thesis
    unfolding calculate_skill_match_score_def Let_def m missing_filter
    by (simp add: py_truediv_def match_rate_def)
qed

lemma match_rate_bounds:
  "0 \<le> match_rate (filter P xs) xs \<and> match_rate (filter P xs) xs \<le> 1"
proof (cases "xs = []")
  case True
  then show ?thesis by (simp add: match_rate_def)
next
  case False
  let ?x = "of_nat (length (filter P xs)) / of_nat (length xs) :: rat"
  have "length (filter P xs) \<le> length xs" by (rule length_filter_le)
  then have "(of_nat (length (filter P xs)) :: rat) \<le> of_nat (length xs)"
    by (simp only: of_nat_le_iff)
  with False have le: "?x \<le> of_int 1" by (simp add: divide_le_eq_1)
  have "0 \<le> ?x" by simp
  then have "0 \<le> fl ?x" by (rule fl_nonneg)
  moreover from le have "fl ?x \<le> of_int 1" by (rule fl_le_int) simp_all
  ultimately show ?thesis using False by (simp add: match_rate_def)
qed

lemma skill_score_bounds:
  assumes "0 \<le> r1" "r1 \<le> 1" "0 \<le> r2" "r2 \<le> 1"
  shows "0 \<le> fadd (fmul r1 70) (fmul r2 30) \<and> fadd (fmul r1 70) (fmul r2 30) \<le> 100"
proof -
  have a0: "0 \<le> fmul r1 70" unfolding fmul_def using assms(1) by (intro fl_nonneg) simp
  have b0: "0 \<le> fmul r2 30" unfolding fmul_def using assms(3) by (intro fl_nonneg) simp
  have "r1 * 70 \<le> of_int 70" using assms(2) by simp
  then have a1: "fmul r1 70 \<le> 70" unfolding fmul_def using fl_le_int [of "r1 * 70" 70] by simp
  have "r2 * 30 \<le> of_int 30" using assms(4) by simp
  then have b1: "fmul r2 30 \<le> 30" unfolding fmul_def using fl_le_int [of "r2 * 30" 30] by simp
  have "0 \<le> fmul r1 70 + fmul r2 30" using a0 b0 by simp
  then have lo: "0 \<le> fadd (fmul r1 70) (fmul r2 30)" unfolding fadd_def by (rule fl_nonneg)
  have "fmul r1 70 + fmul r2 30 \<le> of_int 100" using a1 b1 by simp
  then have "fadd (fmul r1 70) (fmul r2 30) \<le> of_int 100"
    unfolding fadd_def by (rule fl_le_int) simp_all
  with lo show ?thesis by simp
qed

lemma matched_skill_score_bounds:
  "0 \<le> fadd (fmul (match_rate (filter P rs) rs) 70) (fmul (match_rate (filter Q ps) ps) 30)
   \<and> fadd (fmul (match_rate (filter P rs) rs) 70) (fmul (match_rate (filter Q ps) ps) 30)
        \<le> 100"
  using match_rate_bounds [of P rs] match_rate_bounds [of Q ps]
  by (intro skill_score_bounds) simp_all

text \<open>
  Claim C6. The matcher returns the required skills that are matched, the required skills
  that are not, and the preferred skills that are matched, each in job-list order; a job
  skill is matched exactly when some candidate skill has a block equal to it up to case
  (the job skill inside the candidate skill, not the candidate skill inside the job
  skill). "Google Analytics" as a candidate skill matches the required skill
  "google analytics".
\<close>

theorem skill_matching_rule:
  "(\<exists>score. calculate_skill_match_score cs rs ps n =
       Inr (score, filter (skill_matched cs) rs, filter (\<lambda>s. \<not> skill_matched cs s) rs,
            filter (skill_matched cs) ps))
   \<and> (skill_matched cs s \<longleftrightarrow>
        (\<exists>c \<in> set cs. \<exists>p t q. c = p @ t @ q \<and> lower t = lower s))
   \<and> skill_matched [''Google Analytics''] ''google analytics''
   \<and> skill_matched [''Google Analytics Certification''] ''Google Analytics''
   \<and> \<not> skill_matched [''Analytics''] ''Google Analytics''"
proof -
  have "skill_matched [''Google Analytics''] ''google analytics''"
    by code_simp
  moreover have "skill_matched [''Google Analytics Certification''] ''Google Analytics''"
    by code_simp
  moreover have "\<not> skill_matched [''Analytics''] ''Google Analytics''"
    by code_simp
  ultimately show ?thesis
    using skill_match_result [of cs rs ps n] skill_matched_iff [of cs s] by blast
qed

theorem skill_matching_rule_witness:
  "\<exists>score. calculate_skill_match_score [''Google Analytics Certification'', ''Excel'']
       [''Google Analytics'', ''SEO''] [''excel''] [''Figma'']
     = Inr (score, [''Google Analytics''], [''SEO''], [''excel''])"
proof -
  have a: "filter (skill_matched [''Google Analytics Certification'', ''Excel''])
             [''Google Analytics'', ''SEO''] = [''Google Analytics'']"
    by code_simp
  have b: "filter (\<lambda>s. \<not> skill_matched [''Google Analytics Certification'', ''Excel''] s)
             [''Google Analytics'', ''SEO''] = [''SEO'']"
    by code_simp
  have c: "filter (skill_matched [''Google Analytics Certification'', ''Excel''])
             [''excel''] = [''excel'']"
    by code_simp
  from skill_matching_rule [of "[''Google Analytics Certification'', ''Excel'']"
      "[''Google Analytics'', ''SEO'']" "[''excel'']" "[''Figma'']" "''SEO''"]
  show ?thesis unfolding a b c by blast
qed



subsection \<open>The nice-to-have list\<close>

lemma skill_match_ignores_nice_to_have:
  "calculate_skill_match_score cs rs ps n1 = calculate_skill_match_score cs rs ps n2"
  by (simp add: calculate_skill_match_score_def)

text \<open>
  Claim C10. Two runs that differ only in the job profile's nice-to-have list return the
  same result: the skill matcher returns the same tuple for any two nice-to-have lists,
  and \<open>score_candidate\<close> the same dictionary (or the same error) after the list is replaced.
\<close>

theorem nice_to_have_inert:
  "calculate_skill_match_score cs rs ps n1 = calculate_skill_match_score cs rs ps n2
   \<and> score_candidate cand (job\<lparr>nice_to_have_skills := n\<rparr>) weights
       = score_candidate cand job weights"
proof
  show "calculate_skill_match_score cs rs ps n1 = calculate_skill_match_score cs rs ps n2"
    by (rule skill_match_ignores_nice_to_have)
next
  have "calculate_skill_match_score (skills cand) (required_skills job)
          (preferred_skills job) n
        = calculate_skill_match_score (skills cand) (required_skills job)
            (preferred_skills job) (nice_to_have_skills job)"
    by (rule skill_match_ignores_nice_to_have)
  then show "score_candidate cand (job\<lparr>nice_to_have_skills := n\<rparr>) weights
               = score_candidate cand job weights"
    by (simp add: score_candidate_def cong: sum.case_cong prod.case_cong)
qed

theorem nice_to_have_inert_witness:
  "score_candidate
     \<lparr> name = ''Ann'', email = ''a@b.c'', phone = None, skills = [''SEO''],
       experience_years = 7, education = [''PhD''], past_roles = [''Manager''],
       summary = ''team'' \<rparr>
     (\<lparr> title = ''T'', required_skills = [''seo''], minimum_experience_years = 5,
        preferred_skills = [], nice_to_have_skills = [''Python''],
        minimum_education = ''PhD'' \<rparr> \<lparr> nice_to_have_skills := [''Figma''] \<rparr>)
     \<lparr> required_skills_weight = 1, preferred_skills_weight = 0, experience_weight = 0,
       education_weight = 0, soft_skills_weight = 0 \<rparr>
   = score_candidate
     \<lparr> name = ''Ann'', email = ''a@b.c'', phone = None, skills = [''SEO''],
       experience_years = 7, education = [''PhD''], past_roles = [''Manager''],
       summary = ''team'' \<rparr>
     \<lparr> title = ''T'', required_skills = [''seo''], minimum_experience_years = 5,
       preferred_skills = [], nice_to_have_skills = [''Python''],
       minimum_education = ''PhD'' \<rparr>
     \<lparr> required_skills_weight = 1, preferred_skills_weight = 0, experience_weight = 0,
       education_weight = 0, soft_skills_weight = 0 \<rparr>"
  using nice_to_have_inert by blast

subsection \<open>Score aggregator\<close>

text \<open>For non-negative weights that sum to 1, exactly or as a floating-point sum, the
  rounding errors of the nine operations leave the weighted sum below 100.05, which
  \<^verbatim>\<open>round\<close> takes to at most 100.\<close>

lemma weighted_overall_bounds:
  assumes sk: "0 \<le> sk" "sk \<le> 100"
    and e: "0 \<le> e" "e \<le> 100"
    and d: "0 \<le> d" "d \<le> 100"
    and so: "0 \<le> so" "so \<le> 100"
    and w: "0 \<le> required_skills_weight w" "0 \<le> preferred_skills_weight w"
      "0 \<le> experience_weight w" "0 \<le> education_weight w" "0 \<le> soft_skills_weight w"
    and total: "required_skills_weight w + preferred_skills_weight w + experience_weight w
        + education_weight w + soft_skills_weight w \<le> 1 + 1 / 1000000"
  shows "0 \<le> weighted_overall sk e d so w \<and> weighted_overall sk e d so w < 100 + 1 / 20"
proof -
  define w1 where "w1 = required_skills_weight w"
  define w2 where "w2 = preferred_skills_weight w"
  define w3 where "w3 = experience_weight w"
  define w4 where "w4 = education_weight w"
  define w5 where "w5 = soft_skills_weight w"
  have w': "0 \<le> w1" "0 \<le> w2" "0 \<le> w3" "0 \<le> w4" "0 \<le> w5"
    and total': "w1 + w2 + w3 + w4 + w5 \<le> 1 + 1 / 1000000"
    using w total by (simp_all add: w1_def w2_def w3_def w4_def w5_def)
  have e': "(0::rat) \<le> of_int e" "(of_int e :: rat) \<le> 100" using e by simp_all
  have d': "(0::rat) \<le> of_int d" "(of_int d :: rat) \<le> 100" using d by simp_all
  have so': "(0::rat) \<le> of_int so" "(of_int so :: rat) \<le> 100" using so by simp_all
  have a0: "0 \<le> sk * w1" "0 \<le> sk * w2" "0 \<le> of_int e * w3" "0 \<le> of_int d * w4"
    "0 \<le> of_int so * w5"
    using sk e' d' so' w' by simp_all
  have a: "sk * w1 \<le> 100 * w1" "sk * w2 \<le> 100 * w2" "of_int e * w3 \<le> 100 * w3"
    "of_int d * w4 \<le> 100 * w4" "of_int so * w5 \<le> 100 * w5"
    using sk e' d' so' w' by (simp_all add: mult_right_mono)
  define p1 where "p1 = fmul sk w1"
  define p2 where "p2 = fmul sk w2"
  define h2 where "h2 = fmul p2 (1 / 2)"
  define p3 where "p3 = fmul (of_int e) w3"
  define p4 where "p4 = fmul (of_int d) w4"
  define p5 where "p5 = fmul (of_int so) w5"
  have P1: "0 \<le> p1" and Q1: "p1 \<le> w1 * (100000000100 / 1000000000) + 1 / 1000000000"
    unfolding p1_def fmul_def using fl_bounds [OF a0(1)] a(1) by linarith+
  have P2: "0 \<le> p2" and Q2: "p2 \<le> w2 * (100000000100 / 1000000000) + 1 / 1000000000"
    unfolding p2_def fmul_def using fl_bounds [OF a0(2)] a(2) by linarith+
  have P3: "0 \<le> p3" and Q3: "p3 \<le> w3 * (100000000100 / 1000000000) + 1 / 1000000000"
    unfolding p3_def fmul_def using fl_bounds [OF a0(3)] a(3) by linarith+
  have P4: "0 \<le> p4" and Q4: "p4 \<le> w4 * (100000000100 / 1000000000) + 1 / 1000000000"
    unfolding p4_def fmul_def using fl_bounds [OF a0(4)] a(4) by linarith+
  have P5: "0 \<le> p5" and Q5: "p5 \<le> w5 * (100000000100 / 1000000000) + 1 / 1000000000"
    unfolding p5_def fmul_def using fl_bounds [OF a0(5)] a(5) by linarith+
  have xh: "0 \<le> p2 * (1 / 2)" using P2 by simp
  have H2: "0 \<le> h2" and G2: "h2 \<le> w2 * (100000000300 / 1000000000) + 3 / 1000000000"
    unfolding h2_def fmul_def using fl_bounds [OF xh] Q2 w'(2) by linarith+
  define s1 where "s1 = fadd p1 h2"
  define s2 where "s2 = fadd s1 p3"
  define s3 where "s3 = fadd s2 p4"
  define s4 where "s4 = fadd s3 p5"
  have y1: "0 \<le> p1 + h2" using P1 H2 by simp
  have S1: "0 \<le> s1"
    and R1: "s1 \<le> (w1 + w2) * (100000000800 / 1000000000) + 8 / 1000000000"
    using fl_bounds [OF y1] Q1 G2 w' unfolding s1_def fadd_def distrib_right by linarith+
  have y2: "0 \<le> s1 + p3" using S1 P3 by simp
  have S2: "0 \<le> s2"
    and R2: "s2 \<le> (w1 + w2 + w3) * (100000001800 / 1000000000) + 18 / 1000000000"
    using fl_bounds [OF y2] R1 Q3 w' unfolding s2_def fadd_def distrib_right by linarith+
  have y3: "0 \<le> s2 + p4" using S2 P4 by simp
  have S3: "0 \<le> s3"
    and R3: "s3 \<le> (w1 + w2 + w3 + w4) * (100000003800 / 1000000000) + 38 / 1000000000"
    using fl_bounds [OF y3] R2 Q4 w' unfolding s3_def fadd_def distrib_right by linarith+
  have y4: "0 \<le> s3 + p5" using S3 P5 by simp
  have S4: "0 \<le> s4"
    and R4: "s4 \<le> (w1 + w2 + w3 + w4 + w5) * (100000007800 / 1000000000) + 78 / 1000000000"
    using fl_bounds [OF y4] R3 Q5 w' unfolding s4_def fadd_def distrib_right by linarith+
  have eq: "weighted_overall sk e d so w = s4"
    by (simp add: weighted_overall_def s4_def s3_def s2_def s1_def h2_def
        p1_def p2_def p3_def p4_def p5_def w1_def w2_def w3_def w4_def w5_def)
  have "s4 < 100 + 1 / 20" using R4 total' unfolding distrib_right by linarith
  with S4 show ?thesis unfolding eq by simp
qed

lemma round1_bounds:
  assumes "0 \<le> x" and "x < 100 + 1 / 20"
  shows "0 \<le> round1 x \<and> round1 x \<le> 100"
proof -
  let ?k = "round_half_even (x * 10)"
  have k0: "0 \<le> ?k" using assms(1) by (intro round_half_even_nonneg) simp
  have "x * 10 < of_int 1000 + 1 / 2" using assms(2) by simp
  then have k1: "?k \<le> 1000" by (rule round_half_even_below_half)
  have "(0::rat) \<le> of_int ?k / 10" using k0 by simp
  then have lo: "0 \<le> round1 x" unfolding round1_def by (rule fl_nonneg)
  have "(of_int ?k :: rat) \<le> of_int 1000" using k1 by (simp only: of_int_le_iff)
  then have "(of_int ?k :: rat) / 10 \<le> of_int 100" by simp
  then have "fl (of_int ?k / 10) \<le> of_int 100" by (rule fl_le_int) simp_all
  then show ?thesis using lo by (simp add: round1_def)
qed

lemma soft_skill_score_cases:
  "soft_skill_score_of s roles \<in> {60, 80, 90}"
  by (simp add: soft_skill_score_of_def Let_def)

lemma score_candidate_result:
  assumes "calculate_skill_match_score (skills cand) (required_skills job)
             (preferred_skills job) (nice_to_have_skills job) = Inr (sk, mr, miss, mp)"
    and "calculate_experience_score (experience_years cand) (minimum_experience_years job)
           = (e, ea)"
    and "calculate_education_score (education cand) (minimum_education job) = Inr (d, da)"
  shows "score_candidate cand job weights =
     Inr \<lparr> overall_score =
             round1 (weighted_overall sk e d
                       (soft_skill_score_of (summary cand) (past_roles cand)) weights),
           skills_score = round1 sk,
           experience_score = of_int e,
           education_score = of_int d,
           matched_required_skills = mr,
           missing_required_skills = miss,
           matched_preferred_skills = mp,
           experience_assessment = ea,
           education_assessment = da \<rparr>"
  by (simp add: score_candidate_def assms Let_def)

lemma score_candidate_raises_iff:
  "score_candidate cand job weights = Inl err
     \<longleftrightarrow> err = IndexError \<and> education cand = []
         \<and> minimum_education job = ''High School or Certificate''"
proof (cases "calculate_education_score (education cand) (minimum_education job)")
  case (Inl e)
  then have "score_candidate cand job weights = Inl e"
    by (simp add: score_candidate_def skill_match_result split: prod.splits)
  with Inl show ?thesis
    using education_score_raises_iff [of "education cand" "minimum_education job"]
    by auto
next
  case (Inr p)
  obtain d da where p: "p = (d, da)" by (cases p)
  obtain e ea where ex: "calculate_experience_score (experience_years cand)
      (minimum_experience_years job) = (e, ea)"
    by (cases "calculate_experience_score (experience_years cand)
      (minimum_experience_years job)")
  from Inr p have "\<exists>r. score_candidate cand job weights = Inr r"
    using score_candidate_result [OF skill_match_result ex, of d da weights] by blast
  moreover from Inr have "\<not> (education cand = []
      \<and> minimum_education job = ''High School or Certificate'')"
    using education_score_raises_iff [of "education cand" "minimum_education job" IndexError]
    by auto
  ultimately show ?thesis by auto
qed

lemma fl_unit_in_range:
  assumes "0 \<le> q" and "q \<le> 1"
  shows "\<bar>fl q\<bar> \<le> 2 ^ 1000"
proof -
  have "0 \<le> fl q" using assms(1) by (rule fl_nonneg)
  moreover have "fl q \<le> of_int 1" using assms(2) by (intro fl_le_int) simp_all
  moreover have "(1::rat) \<le> 2 ^ 1000" by (rule one_le_power) simp
  ultimately show ?thesis by simp
qed

lemma fl_abs_step:
  assumes "\<bar>x\<bar> \<le> M" and "1 \<le> B" and "M \<le> 1000 * B"
  shows "\<bar>fl x\<bar> \<le> M + B"
  using fl_approx [of x] assms by linarith

lemma weighted_overall_finite:
  assumes sk: "\<bar>sk\<bar> \<le> 100" and e: "\<bar>e\<bar> \<le> 100" and d: "\<bar>d\<bar> \<le> 100"
    and so: "\<bar>so\<bar> \<le> 100"
    and w: "weights_in_range w"
  shows "\<bar>weighted_overall sk e d so w\<bar> < 2 ^ 1024"
proof -
  define B :: rat where "B = 2 ^ 1000"
  have B1: "1 \<le> B" unfolding B_def by simp
  define w1 where "w1 = required_skills_weight w"
  define w2 where "w2 = preferred_skills_weight w"
  define w3 where "w3 = experience_weight w"
  define w4 where "w4 = education_weight w"
  define w5 where "w5 = soft_skills_weight w"
  have w': "\<bar>w1\<bar> \<le> B" "\<bar>w2\<bar> \<le> B" "\<bar>w3\<bar> \<le> B" "\<bar>w4\<bar> \<le> B" "\<bar>w5\<bar> \<le> B"
    using w by (simp_all add: weights_in_range_def B_def w1_def w2_def w3_def w4_def w5_def)
  have e': "\<bar>of_int e :: rat\<bar> \<le> 100" using e by (simp flip: of_int_abs)
  have d': "\<bar>of_int d :: rat\<bar> \<le> 100" using d by (simp flip: of_int_abs)
  have so': "\<bar>of_int so :: rat\<bar> \<le> 100" using so by (simp flip: of_int_abs)
  have prod: "\<bar>a * b\<bar> \<le> 100 * B" if "\<bar>a\<bar> \<le> 100" and "\<bar>b\<bar> \<le> B" for a b :: rat
    using that mult_mono [of "\<bar>a\<bar>" 100 "\<bar>b\<bar>" B] by (simp add: abs_mult)
  define p1 where "p1 = fmul sk w1"
  define p2 where "p2 = fmul sk w2"
  define h2 where "h2 = fmul p2 (1 / 2)"
  define p3 where "p3 = fmul (of_int e) w3"
  define p4 where "p4 = fmul (of_int d) w4"
  define p5 where "p5 = fmul (of_int so) w5"
  have P1: "\<bar>p1\<bar> \<le> 101 * B"
    unfolding p1_def fmul_def using fl_abs_step [OF prod [OF sk w'(1)] B1] B1 by simp
  have P2: "\<bar>p2\<bar> \<le> 101 * B"
    unfolding p2_def fmul_def using fl_abs_step [OF prod [OF sk w'(2)] B1] B1 by simp
  have P3: "\<bar>p3\<bar> \<le> 101 * B"
    unfolding p3_def fmul_def using fl_abs_step [OF prod [OF e' w'(3)] B1] B1 by simp
  have P4: "\<bar>p4\<bar> \<le> 101 * B"
    unfolding p4_def fmul_def using fl_abs_step [OF prod [OF d' w'(4)] B1] B1 by simp
  have P5: "\<bar>p5\<bar> \<le> 101 * B"
    unfolding p5_def fmul_def using fl_abs_step [OF prod [OF so' w'(5)] B1] B1 by simp
  have "\<bar>p2 * (1 / 2)\<bar> \<le> 101 * B" using P2 by simp
  from fl_abs_step [OF this B1] B1 have H2: "\<bar>h2\<bar> \<le> 102 * B"
    unfolding h2_def fmul_def by simp
  define s1 where "s1 = fadd p1 h2"
  define s2 where "s2 = fadd s1 p3"
  define s3 where "s3 = fadd s2 p4"
  define s4 where "s4 = fadd s3 p5"
  have "\<bar>p1 + h2\<bar> \<le> 203 * B" using P1 H2 by linarith
  from fl_abs_step [OF this B1] B1 have S1: "\<bar>s1\<bar> \<le> 204 * B"
    unfolding s1_def fadd_def by simp
  have "\<bar>s1 + p3\<bar> \<le> 305 * B" using S1 P3 by linarith
  from fl_abs_step [OF this B1] B1 have S2: "\<bar>s2\<bar> \<le> 306 * B"
    unfolding s2_def fadd_def by simp
  have "\<bar>s2 + p4\<bar> \<le> 407 * B" using S2 P4 by linarith
  from fl_abs_step [OF this B1] B1 have S3: "\<bar>s3\<bar> \<le> 408 * B"
    unfolding s3_def fadd_def by simp
  have "\<bar>s3 + p5\<bar> \<le> 509 * B" using S3 P5 by linarith
  from fl_abs_step [OF this B1] B1 have S4: "\<bar>s4\<bar> \<le> 510 * B"
    unfolding s4_def fadd_def by simp
  have eq: "weighted_overall sk e d so w = s4"
    by (simp add: weighted_overall_def s4_def s3_def s2_def s1_def h2_def
        p1_def p2_def p3_def p4_def p5_def w1_def w2_def w3_def w4_def w5_def)
  have "(2::rat) ^ 1024 = 2 ^ 24 * B" unfolding B_def by (simp flip: power_add)
  then have "510 * B < (2::rat) ^ 1024" using B1 by simp
  with S4 show ?thesis unfolding eq by linarith
qed

text \<open>
  Claim C3. With the skill, experience, education and soft-skill scores that the
  component scorers return, \<open>score_candidate\<close> returns as overall score the sum, computed
  in floating point from left to right, of skill * required weight,
  skill * preferred weight * 0.5 (the skill score counted a second time, at half strength,
  against the preferred weight), experience * experience weight,
  education * education weight and soft skills * soft-skills weight, rounded to one
  decimal place: the float nearest to \<open>k / 10\<close>, the multiple of one tenth nearest to the
  sum. The weights are of magnitude at most \<open>2^1000\<close>; the sum then stays below \<open>2^1024\<close>.
\<close>

theorem overall_score_formula:
  assumes "calculate_skill_match_score (skills cand) (required_skills job)
             (preferred_skills job) (nice_to_have_skills job)
           = Inr (skill_score, mr, miss, mp)"
    and "calculate_experience_score (experience_years cand) (minimum_experience_years job)
           = (exp_score, ea)"
    and "calculate_education_score (education cand) (minimum_education job)
           = Inr (edu_score, da)"
    and "soft_skill_score_of (summary cand) (past_roles cand) = soft_skill_score"
    and "float_sum =
           fadd (fadd (fadd (fadd
             (fmul skill_score (required_skills_weight weights))
             (fmul (fmul skill_score (preferred_skills_weight weights)) (1 / 2)))
             (fmul (of_int exp_score) (experience_weight weights)))
             (fmul (of_int edu_score) (education_weight weights)))
             (fmul (of_int soft_skill_score) (soft_skills_weight weights))"
    and "weights_in_range weights"
  shows "\<exists>r k. score_candidate cand job weights = Inr r
           \<and> overall_score r = round1 float_sum
           \<and> overall_score r = fl (of_int k / 10)
           \<and> \<bar>of_int k / 10 - float_sum\<bar> \<le> 1 / 20
           \<and> \<bar>float_sum\<bar> < 2 ^ 1024"
proof -
  have t: "float_sum = weighted_overall skill_score exp_score edu_score
                  (soft_skill_score_of (summary cand) (past_roles cand)) weights"
    by (simp add: assms(4,5) weighted_overall_def)
  have "skill_score = fadd
      (fmul (match_rate (filter (skill_matched (skills cand)) (required_skills job))
         (required_skills job)) 70)
      (fmul (match_rate (filter (skill_matched (skills cand)) (preferred_skills job))
         (preferred_skills job)) 30)"
    using assms(1) by (auto simp add: skill_match_result)
  then have sk: "\<bar>skill_score\<bar> \<le> 100"
    using matched_skill_score_bounds [of "skill_matched (skills cand)" "required_skills job"
        "skill_matched (skills cand)" "preferred_skills job"]
    by simp
  have e: "\<bar>exp_score\<bar> \<le> 100"
    using experience_score_bounds [of "experience_years cand" "minimum_experience_years job"]
      assms(2) by simp
  have d: "\<bar>edu_score\<bar> \<le> 100"
    using education_score_range [OF assms(3)] by simp
  have so: "\<bar>soft_skill_score_of (summary cand) (past_roles cand)\<bar> \<le> 100"
    using soft_skill_score_cases [of "summary cand" "past_roles cand"] by auto
  have fin: "\<bar>float_sum\<bar> < 2 ^ 1024"
    unfolding t using sk e d so assms(6) by (rule weighted_overall_finite)
  let ?k = "round_half_even (float_sum * 10)"
  have "\<bar>of_int ?k - float_sum * 10\<bar> \<le> 1 / 2" by (rule round_half_even_near)
  then have near: "\<bar>of_int ?k / 10 - float_sum\<bar> \<le> 1 / 20"
    by (simp add: abs_le_iff field_simps)
  have r1: "round1 float_sum = fl (of_int ?k / 10)" by (simp add: round1_def)
  show ?thesis
    using score_candidate_result [OF assms(1,2,3), of weights] t r1 near fin
    by auto
qed

theorem overall_score_formula_witness:
  "\<exists>r. score_candidate
          \<lparr> name = ''Ann'', email = ''a@b.c'', phone = None,
            skills = [''seo'', ''crm'', ''sql'', ''Excel'', ''Figma''],
            experience_years = 6, education = [''High School or Certificate''],
            past_roles = [], summary = '''' \<rparr>
          \<lparr> title = ''Analyst'', required_skills = [''SEO'', ''CRM'', ''SQL'', ''Ads'', ''PR''],
            minimum_experience_years = 5, preferred_skills = [''Excel'', ''Figma'', ''Canva''],
            nice_to_have_skills = [''Python''], minimum_education = ''Bachelor's Degree'' \<rparr>
          \<lparr> required_skills_weight = fl (35 / 100), preferred_skills_weight = fl (20 / 100),
            experience_weight = fl (25 / 100), education_weight = fl (10 / 100),
            soft_skills_weight = fl (10 / 100) \<rparr>
        = Inr r
       \<and> overall_score r = fl (571 / 10)"
proof -
  let ?c = "\<lparr> name = ''Ann'', email = ''a@b.c'', phone = None,
            skills = [''seo'', ''crm'', ''sql'', ''Excel'', ''Figma''],
            experience_years = 6, education = [''High School or Certificate''],
            past_roles = [], summary = '''' \<rparr>"
  let ?j = "\<lparr> title = ''Analyst'', required_skills = [''SEO'', ''CRM'', ''SQL'', ''Ads'', ''PR''],
            minimum_experience_years = 5, preferred_skills = [''Excel'', ''Figma'', ''Canva''],
            nice_to_have_skills = [''Python''], minimum_education = ''Bachelor's Degree'' \<rparr>"
  let ?w = "\<lparr> required_skills_weight = fl (35 / 100), preferred_skills_weight = fl (20 / 100),
            experience_weight = fl (25 / 100), education_weight = fl (10 / 100),
            soft_skills_weight = fl (10 / 100) \<rparr>"
  have h1: "calculate_skill_match_score (skills ?c) (required_skills ?j)
              (preferred_skills ?j) (nice_to_have_skills ?j)
            = Inr (62, [''SEO'', ''CRM'', ''SQL''], [''Ads'', ''PR''], [''Excel'', ''Figma''])"
    by code_simp
  have h2: "calculate_experience_score (experience_years ?c) (minimum_experience_years ?j)
              = (85, ''Meets requirement with 6 years of experience'')"
    by code_simp
  have h3: "calculate_education_score (education ?c) (minimum_education ?j)
              = Inr (20, ''Below requirement: High School or Certificate'')"
    by code_simp
  have h4: "soft_skill_score_of (summary ?c) (past_roles ?c) = 60"
    by code_simp
  have u: "\<bar>fl (35 / 100)\<bar> \<le> 2 ^ 1000" "\<bar>fl (20 / 100)\<bar> \<le> 2 ^ 1000"
    "\<bar>fl (25 / 100)\<bar> \<le> 2 ^ 1000" "\<bar>fl (10 / 100)\<bar> \<le> 2 ^ 1000"
    by (rule fl_unit_in_range; simp)+
  have h6: "weights_in_range ?w"
    by (simp only: weights_in_range_def scoring_criteria.select_convs u simp_thms)
  have r: "round1 (fadd (fadd (fadd (fadd
             (fmul 62 (required_skills_weight ?w))
             (fmul (fmul 62 (preferred_skills_weight ?w)) (1 / 2)))
             (fmul (of_int 85) (experience_weight ?w)))
             (fmul (of_int 20) (education_weight ?w)))
             (fmul (of_int 60) (soft_skills_weight ?w))) = fl (571 / 10)"
    by code_simp
  from overall_score_formula [OF h1 h2 h3 h4 refl h6] r show ?thesis
    by auto
qed

text \<open>
  Claim C4. For five non-negative weights whose sum is 1, as an exact sum or as the
  floating-point sum taken from left to right, every overall score that
  \<open>score_candidate\<close> returns lies between 0 and 100; and it returns one for every input
  but an empty education list against the minimum "High School or Certificate".
\<close>

theorem overall_score_range:
  assumes "0 \<le> required_skills_weight weights" and "0 \<le> preferred_skills_weight weights"
    and "0 \<le> experience_weight weights" and "0 \<le> education_weight weights"
    and "0 \<le> soft_skills_weight weights"
    and "required_skills_weight weights + preferred_skills_weight weights
           + experience_weight weights + education_weight weights
           + soft_skills_weight weights = 1
         \<or> fadd (fadd (fadd (fadd (required_skills_weight weights)
              (preferred_skills_weight weights)) (experience_weight weights))
              (education_weight weights)) (soft_skills_weight weights) = 1"
  shows "(\<forall>r. score_candidate cand job weights = Inr r
            \<longrightarrow> 0 \<le> overall_score r \<and> overall_score r \<le> 100)
         \<and> ((\<exists>r. score_candidate cand job weights = Inr r)
              \<longleftrightarrow> \<not> (education cand = []
                       \<and> minimum_education job = ''High School or Certificate''))"
proof
  have total: "required_skills_weight weights + preferred_skills_weight weights
           + experience_weight weights + education_weight weights
           + soft_skills_weight weights \<le> 1 + 1 / 1000000"
    using assms(6)
  proof
    assume "required_skills_weight weights + preferred_skills_weight weights
           + experience_weight weights + education_weight weights
           + soft_skills_weight weights = 1"
    then show ?thesis by simp
  next
    assume "fadd (fadd (fadd (fadd (required_skills_weight weights)
              (preferred_skills_weight weights)) (experience_weight weights))
              (education_weight weights)) (soft_skills_weight weights) = 1"
    with assms(1-5) show ?thesis by (rule float_sum_one)
  qed
  show "\<forall>r. score_candidate cand job weights = Inr r
            \<longrightarrow> 0 \<le> overall_score r \<and> overall_score r \<le> 100"
  proof (intro allI impI)
    fix r
    assume run: "score_candidate cand job weights = Inr r"
    let ?P = "skill_matched (skills cand)"
    let ?sk = "fadd (fmul (match_rate (filter ?P (required_skills job))
                              (required_skills job)) 70)
                    (fmul (match_rate (filter ?P (preferred_skills job))
                              (preferred_skills job)) 30)"
    let ?so = "soft_skill_score_of (summary cand) (past_roles cand)"
    obtain e ea where ex: "calculate_experience_score (experience_years cand)
        (minimum_experience_years job) = (e, ea)"
      by (cases "calculate_experience_score (experience_years cand)
        (minimum_experience_years job)")
    obtain d da where ed: "calculate_education_score (education cand)
        (minimum_education job) = Inr (d, da)"
    proof (cases "calculate_education_score (education cand) (minimum_education job)")
      case (Inl err)
      then have "score_candidate cand job weights = Inl err"
        by (simp add: score_candidate_def skill_match_result split: prod.splits)
      with run show ?thesis by simp
    next
      case (Inr p)
      with that show ?thesis by (cases p) auto
    qed
    have ov: "overall_score r = round1 (weighted_overall ?sk e d ?so weights)"
      using run score_candidate_result [OF skill_match_result ex ed, of weights] by auto
    have sk: "0 \<le> ?sk \<and> ?sk \<le> 100" by (rule matched_skill_score_bounds)
    have e: "0 \<le> e \<and> e \<le> 100"
      using experience_score_bounds [of "experience_years cand" "minimum_experience_years job"] ex
      by simp
    have d: "0 \<le> d \<and> d \<le> 100" using ed by (rule education_score_range)
    have so: "0 \<le> ?so \<and> ?so \<le> 100"
      using soft_skill_score_cases [of "summary cand" "past_roles cand"] by auto
    have "0 \<le> weighted_overall ?sk e d ?so weights
        \<and> weighted_overall ?sk e d ?so weights < 100 + 1 / 20"
      using sk e d so assms(1-5) total by (intro weighted_overall_bounds) simp_all
    then show "0 \<le> overall_score r \<and> overall_score r \<le> 100"
      unfolding ov using round1_bounds by blast
  qed
next
  show "(\<exists>r. score_candidate cand job weights = Inr r)
          \<longleftrightarrow> \<not> (education cand = []
                   \<and> minimum_education job = ''High School or Certificate'')"
    using score_candidate_raises_iff [of cand job weights]
    by (cases "score_candidate cand job weights") auto
qed

theorem overall_score_range_witness:
  "\<exists>r. score_candidate
          \<lparr> name = ''Ann'', email = ''a@b.c'', phone = None,
            skills = [''seo'', ''crm'', ''sql'', ''Excel'', ''Figma''],
            experience_years = 6, education = [''High School or Certificate''],
            past_roles = [], summary = '''' \<rparr>
          \<lparr> title = ''Analyst'', required_skills = [''SEO'', ''CRM'', ''SQL'', ''Ads'', ''PR''],
            minimum_experience_years = 5, preferred_skills = [''Excel'', ''Figma'', ''Canva''],
            nice_to_have_skills = [''Python''], minimum_education = ''Bachelor's Degree'' \<rparr>
          \<lparr> required_skills_weight = fl (35 / 100), preferred_skills_weight = fl (20 / 100),
            experience_weight = fl (25 / 100), education_weight = fl (10 / 100),
            soft_skills_weight = fl (10 / 100) \<rparr>
        = Inr r
       \<and> 0 \<le> overall_score r \<and> overall_score r \<le> 100"
proof -
  let ?c = "\<lparr> name = ''Ann'', email = ''a@b.c'', phone = None,
            skills = [''seo'', ''crm'', ''sql'', ''Excel'', ''Figma''],
            experience_years = 6, education = [''High School or Certificate''],
            past_roles = [], summary = '''' \<rparr>"
  let ?j = "\<lparr> title = ''Analyst'', required_skills = [''SEO'', ''CRM'', ''SQL'', ''Ads'', ''PR''],
            minimum_experience_years = 5, preferred_skills = [''Excel'', ''Figma'', ''Canva''],
            nice_to_have_skills = [''Python''], minimum_education = ''Bachelor's Degree'' \<rparr>"
  let ?w = "\<lparr> required_skills_weight = fl (35 / 100), preferred_skills_weight = fl (20 / 100),
            experience_weight = fl (25 / 100), education_weight = fl (10 / 100),
            soft_skills_weight = fl (10 / 100) \<rparr>"
  have n: "0 \<le> required_skills_weight ?w" "0 \<le> preferred_skills_weight ?w"
    "0 \<le> experience_weight ?w" "0 \<le> education_weight ?w" "0 \<le> soft_skills_weight ?w"
    by (simp_all add: fl_nonneg)
  have s: "required_skills_weight ?w + preferred_skills_weight ?w
           + experience_weight ?w + education_weight ?w + soft_skills_weight ?w = 1
         \<or> fadd (fadd (fadd (fadd (required_skills_weight ?w)
              (preferred_skills_weight ?w)) (experience_weight ?w))
              (education_weight ?w)) (soft_skills_weight ?w) = 1"
    by code_simp
  have "(\<forall>r. score_candidate ?c ?j ?w = Inr r
            \<longrightarrow> 0 \<le> overall_score r \<and> overall_score r \<le> 100)
        \<and> ((\<exists>r. score_candidate ?c ?j ?w = Inr r)
             \<longleftrightarrow> \<not> (education ?c = []
                      \<and> minimum_education ?j = ''High School or Certificate''))"
    using n s by (rule overall_score_range)
  then show ?thesis by auto
qed

subsection \<open>Recommendation engine\<close>

lemma recommendation_result:
  "\<exists>reasoning. generate_recommendation float_str results cand
     = Inr (fst (recommendation_tier (overall_score results)
                   (length (missing_required_skills results))),
            snd (recommendation_tier (overall_score results)
                   (length (missing_required_skills results))),
            reasoning)"
  by (cases "missing_required_skills results")
     (simp_all add: generate_recommendation_def recommendation_tier_def Let_def py_index0_def)

text \<open>
  Claim C1. The recommendation and the confidence are those of the four tiers, read in
  order: overall score at least 80 with no missing required skill gives hire (high from
  90, medium below); else at least 70 with at most one missing gives review, medium; else
  at least 60 gives review, low; else pass, high. Each pair of overall score and missing
  count has one recommendation among hire, review and pass, and 85 with nothing missing
  gives hire with medium confidence.
\<close>

theorem recommendation_tiers:
  "map_sum id (\<lambda>(r, c, t). (r, c)) (generate_recommendation float_str results cand)
     = Inr (recommendation_tier (overall_score results)
              (length (missing_required_skills results)))
   \<and> fst (recommendation_tier overall k) \<in> {''hire'', ''review'', ''pass''}
   \<and> recommendation_tier 85 0 = (''hire'', ''medium'')"
proof -
  obtain t where "generate_recommendation float_str results cand
     = Inr (fst (recommendation_tier (overall_score results)
                   (length (missing_required_skills results))),
            snd (recommendation_tier (overall_score results)
                   (length (missing_required_skills results))),
            t)"
    using recommendation_result by blast
  then have "map_sum id (\<lambda>(r, c, t). (r, c)) (generate_recommendation float_str results cand)
     = Inr (recommendation_tier (overall_score results)
              (length (missing_required_skills results)))"
    by simp
  moreover have "fst (recommendation_tier overall k) \<in> {''hire'', ''review'', ''pass''}"
    by (simp add: recommendation_tier_def)
  moreover have "recommendation_tier 85 0 = (''hire'', ''medium'')"
    by (simp add: recommendation_tier_def)
  ultimately show ?thesis by blast
qed

theorem recommendation_tiers_witness:
  "map_sum id (\<lambda>(r, c, t). (r, c))
     (generate_recommendation (\<lambda>x. ''85.0'')
        \<lparr> overall_score = 85, skills_score = 100, experience_score = 90,
          education_score = 95, matched_required_skills = [''SEO''],
          missing_required_skills = [], matched_preferred_skills = [],
          experience_assessment = ''ok'', education_assessment = ''ok'' \<rparr>
        \<lparr> name = ''Ann'', email = ''a@b.c'', phone = None, skills = [''SEO''],
          experience_years = 7, education = [''PhD''], past_roles = [''Manager''],
          summary = ''team'' \<rparr>)
   = Inr (''hire'', ''medium'')"
  using recommendation_tiers [of "\<lambda>x. ''85.0''"
      "\<lparr> overall_score = 85, skills_score = 100, experience_score = 90,
          education_score = 95, matched_required_skills = [''SEO''],
          missing_required_skills = [], matched_preferred_skills = [],
          experience_assessment = ''ok'', education_assessment = ''ok'' \<rparr>"
      "\<lparr> name = ''Ann'', email = ''a@b.c'', phone = None, skills = [''SEO''],
          experience_years = 7, education = [''PhD''], past_roles = [''Manager''],
          summary = ''team'' \<rparr>" 85 0]
  by simp

subsection \<open>Exceptions\<close>

text \<open>
  Claim C2 fails on the code. An empty education list against the minimum
  "High School or Certificate" has candidate level 0 and required level 1: the branch
  "one level below" reads the first education entry of the empty list and raises
  \<open>IndexError\<close>, out of the education scorer and so out of \<open>score_candidate\<close>. It is
  the only input on which the education scorer raises; the skill matcher and the
  recommendation engine return on every input.
\<close>

theorem empty_education_raises:
  "calculate_education_score [] ''High School or Certificate'' = Inl IndexError
   \<and> (education cand = [] \<and> minimum_education job = ''High School or Certificate''
        \<longrightarrow> score_candidate cand job weights = Inl IndexError)
   \<and> ((\<exists>r. calculate_education_score edu m = Inr r)
        \<longleftrightarrow> \<not> (edu = [] \<and> m = ''High School or Certificate''))
   \<and> (\<exists>r. calculate_skill_match_score cs rs ps n = Inr r)
   \<and> (\<exists>r. generate_recommendation float_str results cand' = Inr r)"
proof -
  have a: "calculate_education_score [] ''High School or Certificate'' = Inl IndexError"
    using education_score_raises_iff [of "[]" "''High School or Certificate''" IndexError]
    by simp
  have b: "education cand = [] \<and> minimum_education job = ''High School or Certificate''
        \<longrightarrow> score_candidate cand job weights = Inl IndexError"
    using score_candidate_raises_iff [of cand job weights IndexError] by simp
  have c: "(\<exists>r. calculate_education_score edu m = Inr r)
        \<longleftrightarrow> \<not> (edu = [] \<and> m = ''High School or Certificate'')"
    using education_score_raises_iff [of edu m]
    by (cases "calculate_education_score edu m") auto
  have d: "\<exists>r. calculate_skill_match_score cs rs ps n = Inr r"
    using skill_match_result [of cs rs ps n] by blast
  have e: "\<exists>r. generate_recommendation float_str results cand' = Inr r"
    using recommendation_result [of float_str results cand'] by blast
  from a b c d e show ?thesis by blast
qed

theorem empty_education_raises_witness:
  "score_candidate
     \<lparr> name = ''Jo'', email = ''j@d.e'', phone = None, skills = [''Forklift''],
       experience_years = 2, education = [], past_roles = [], summary = '''' \<rparr>
     \<lparr> title = ''Warehouse Associate'', required_skills = [''Forklift''],
       minimum_experience_years = 1, preferred_skills = [], nice_to_have_skills = [],
       minimum_education = ''High School or Certificate'' \<rparr>
     \<lparr> required_skills_weight = fl (35 / 100), preferred_skills_weight = fl (20 / 100),
       experience_weight = fl (25 / 100), education_weight = fl (10 / 100),
       soft_skills_weight = fl (10 / 100) \<rparr>
   = Inl IndexError"
  using empty_education_raises [of
     "\<lparr> name = ''Jo'', email = ''j@d.e'', phone = None, skills = [''Forklift''],
       experience_years = 2, education = [], past_roles = [], summary = '''' \<rparr>"
     "\<lparr> title = ''Warehouse Associate'', required_skills = [''Forklift''],
       minimum_experience_years = 1, preferred_skills = [], nice_to_have_skills = [],
       minimum_education = ''High School or Certificate'' \<rparr>"]
  by simp

end
